theory Spec2Isabelle
  imports Main "HOL-Library.Word" "HOL-Library.Signed_Division"
begin

section \<open>The bytecode virtual machine of sexlang (package vm, file vm/vm.go)\<close>

subsection \<open>Opcodes, runtime values, faults and errors\<close>

type_synonym byte = "8 word"
type_synonym int64 = "64 word"

text \<open>
  Package \<open>code\<close> is not among the sources. \<open>vm.go\<close> uses thirteen of its opcode
  constants, each a byte. Their numbering is taken as a parameter: every function below
  that switches on an opcode receives the table. Go rejects a switch with two equal
  constant cases, and \<open>Run\<close> switches on all thirteen, so the constants are pairwise
  different in any program that compiles: \<open>distinct_ops\<close>.
\<close>

record Opcodes =
  OpConstant :: byte
  OpAdd :: byte
  OpPop :: byte
  OpSub :: byte
  OpMul :: byte
  OpDiv :: byte
  OpTrue :: byte
  OpFalse :: byte
  OpEqual :: byte
  OpNotEqual :: byte
  OpGreaterThan :: byte
  OpMinus :: byte
  OpBang :: byte

definition known_ops :: "Opcodes \<Rightarrow> byte list" where
  "known_ops T =
     [OpConstant T, OpAdd T, OpPop T, OpSub T, OpMul T, OpDiv T, OpTrue T,
      OpFalse T, OpEqual T, OpNotEqual T, OpGreaterThan T, OpMinus T, OpBang T]"

definition distinct_ops :: "Opcodes \<Rightarrow> bool" where
  "distinct_ops T = distinct (known_ops T)"

text \<open>One numbering (declaration order, counted from 0), used to run examples.\<close>

definition sample_ops :: Opcodes where
  "sample_ops = \<lparr>OpConstant = 0, OpAdd = 1, OpPop = 2, OpSub = 3, OpMul = 4, OpDiv = 5,
     OpTrue = 6, OpFalse = 7, OpEqual = 8, OpNotEqual = 9, OpGreaterThan = 10,
     OpMinus = 11, OpBang = 12\<rparr>"

text \<open>
  Package \<open>object\<close> is not among the sources either. Modelled from the spec: a runtime
  value has a kind; an Integer holds a signed 64-bit value, a Boolean holds a truth value,
  and further kinds (strings, arrays, functions, builtins) exist that the machine only
  ever asks for their kind. \<open>vm.go\<close> handles every value through a pointer
  (\<open>*object.Integer\<close>, \<open>*object.Boolean\<close>) stored in the interface \<open>object.Object\<close>.
\<close>

datatype ObjectType = INTEGER_OBJ | BOOLEAN_OBJ | OTHER_OBJ string

datatype heap_object = Integer int64 | Boolean bool | Foreign string

text \<open>
  An \<open>object.Object\<close> interface value: \<open>nil\<close> (the zero value every stack slot starts
  with), one of the two package variables \<open>True\<close> and \<open>False\<close> (pointers to the two
  Boolean objects allocated once per process), or a pointer to any other object, given
  by its position in the heap. \<open>==\<close> on two such values is equality of the pointers.
\<close>

datatype Object = Nil | True_obj | False_obj | Ptr nat

text \<open>Run-time panics of Go: they abort the program, they are not \<open>error\<close> values.\<close>

datatype fault = IndexOutOfRange | NilDereference | BadTypeAssertion | DivideByZero

text \<open>
  The \<open>error\<close> values built by \<open>fmt.Errorf\<close>, one constructor for each format string,
  carrying the arguments of the format:
  \<^item> \<open>StackOverflow\<close>: "stack overflow"
  \<^item> \<open>UnsupportedBinary l r\<close>: "unsupported types for binary operation: %s %s"
  \<^item> \<open>UnknownIntegerOperator op\<close>: "unknown integer operator: %d"
  \<^item> \<open>UnknownOperatorOn op l r\<close>: "unknown operator %d (%s %s)"
  \<^item> \<open>UnknownOperator op\<close>: "unknown operator: %d"
  \<^item> \<open>UnsupportedNegation t\<close>: "unsupported type for negation: %s"
\<close>

datatype error =
    StackOverflow
  | UnsupportedBinary ObjectType ObjectType
  | UnknownIntegerOperator byte
  | UnknownOperatorOn byte ObjectType ObjectType
  | UnknownOperator byte
  | UnsupportedNegation ObjectType

subsection \<open>The machine\<close>

definition StackSize :: int where
  "StackSize = 2048"

text \<open>
  The struct \<open>VM\<close> with its four fields (the misspelt \<open>contants\<close> is the source's name).
  The fifth field is the Go heap the pointers point into: objects are immutable once
  allocated, and an allocation appends one object.
\<close>

record VM =
  contants :: "Object list"
  instructions :: "byte list"
  stack :: "Object list"
  sp :: int
  heap :: "heap_object list"

record Bytecode =
  Instructions :: "byte list"
  Constants :: "Object list"

definition New :: "heap_object list \<Rightarrow> Bytecode \<Rightarrow> VM" where
  "New h bytecode =
     \<lparr>contants = Constants bytecode, instructions = Instructions bytecode,
      stack = replicate (nat StackSize) Nil, sp = 0, heap = h\<rparr>"

definition load :: "heap_object list \<Rightarrow> Object \<Rightarrow> heap_object option" where
  "load h ob =
     (case ob of
        Nil \<Rightarrow> None
      | True_obj \<Rightarrow> Some (Boolean True)
      | False_obj \<Rightarrow> Some (Boolean False)
      | Ptr a \<Rightarrow> (if a < length h then Some (h ! a) else None))"

fun kind :: "heap_object \<Rightarrow> ObjectType" where
  "kind (Integer v) = INTEGER_OBJ"
| "kind (Boolean b) = BOOLEAN_OBJ"
| "kind (Foreign k) = OTHER_OBJ k"

text \<open>
  The method call \<open>x.Type()\<close>: it panics on a nil interface. (A pointer past the end of
  the heap does not exist in Go; \<open>load\<close> treats it like nil.)
\<close>

definition Type :: "heap_object list \<Rightarrow> Object \<Rightarrow> fault + ObjectType" where
  "Type h ob = (case load h ob of None \<Rightarrow> Inl NilDereference | Some c \<Rightarrow> Inr (kind c))"

text \<open>The expression \<open>x.(*object.Integer).Value\<close>.\<close>

definition IntegerValue :: "heap_object list \<Rightarrow> Object \<Rightarrow> fault + int64" where
  "IntegerValue h ob =
     (case load h ob of Some (Integer v) \<Rightarrow> Inr v | _ \<Rightarrow> Inl BadTypeAssertion)"

text \<open>The expression \<open>&object.Integer{Value: v}\<close>: a new object, and the pointer to it.\<close>

definition newInteger :: "int64 \<Rightarrow> VM \<Rightarrow> Object \<times> VM" where
  "newInteger v vm = (Ptr (length (heap vm)), vm\<lparr>heap := heap vm @ [Integer v]\<rparr>)"

definition push :: "Object \<Rightarrow> VM \<Rightarrow> fault + (error option \<times> VM)" where
  "push ob vm =
     (if sp vm \<ge> StackSize then Inr (Some StackOverflow, vm)
      else if 0 \<le> sp vm \<and> sp vm < int (length (stack vm))
      then Inr (None, vm\<lparr>stack := (stack vm)[nat (sp vm) := ob], sp := sp vm + 1\<rparr>)
      else Inl IndexOutOfRange)"

text \<open>The call \<open>vm.push(&object.Integer{Value: v})\<close>: the object is allocated first.\<close>

definition pushInteger :: "int64 \<Rightarrow> VM \<Rightarrow> fault + (error option \<times> VM)" where
  "pushInteger v vm = (case newInteger v vm of (r, vm') \<Rightarrow> push r vm')"

definition pop :: "VM \<Rightarrow> fault + (Object \<times> VM)" where
  "pop vm =
     (if 0 \<le> sp vm - 1 \<and> sp vm - 1 < int (length (stack vm))
      then Inr (stack vm ! nat (sp vm - 1), vm\<lparr>sp := sp vm - 1\<rparr>)
      else Inl IndexOutOfRange)"

definition LastPoppedStackElement :: "VM \<Rightarrow> fault + Object" where
  "LastPoppedStackElement vm =
     (if 0 \<le> sp vm \<and> sp vm < int (length (stack vm))
      then Inr (stack vm ! nat (sp vm))
      else Inl IndexOutOfRange)"

text \<open>
  The invariant of the operand stack: \<open>New\<close> allocates \<open>StackSize\<close> slots, and the
  stack pointer stays between 0 and \<open>StackSize\<close>.
\<close>

definition stack_ok :: "VM \<Rightarrow> bool" where
  "stack_ok vm = (int (length (stack vm)) = StackSize \<and> 0 \<le> sp vm \<and> sp vm \<le> StackSize)"

text \<open>
  Machines to run examples on: a new machine with no program, one whose stack holds the
  values \<open>xs\<close> (the first pushed first), and one whose stack is full.
\<close>

definition no_code :: Bytecode where
  "no_code = \<lparr>Instructions = [], Constants = []\<rparr>"

definition with_stack :: "Object list \<Rightarrow> VM \<Rightarrow> VM" where
  "with_stack xs vm = vm\<lparr>stack := xs @ drop (length xs) (stack vm), sp := int (length xs)\<rparr>"

definition full_vm :: VM where
  "full_vm = with_stack (replicate (nat StackSize) True_obj) (New [] no_code)"

text \<open>
  Go's \<open>/\<close> on \<open>int64\<close>: the quotient truncated towards zero, in 64 bits; a zero divisor
  panics (checked by the caller below).
\<close>

definition int64_div :: "int64 \<Rightarrow> int64 \<Rightarrow> int64" where
  "int64_div a b = word_of_int (sint a sdiv sint b)"

definition executeBinaryIntegerOperation ::
  "Opcodes \<Rightarrow> byte \<Rightarrow> Object \<Rightarrow> Object \<Rightarrow> VM \<Rightarrow> fault + (error option \<times> VM)" where
  "executeBinaryIntegerOperation T op left right vm =
     (case IntegerValue (heap vm) left of Inl f \<Rightarrow> Inl f | Inr leftValue \<Rightarrow>
     (case IntegerValue (heap vm) right of Inl f \<Rightarrow> Inl f | Inr rightValue \<Rightarrow>
        if op = OpAdd T then pushInteger (leftValue + rightValue) vm
        else if op = OpSub T then pushInteger (leftValue - rightValue) vm
        else if op = OpMul T then pushInteger (leftValue * rightValue) vm
        else if op = OpDiv T then
          (if rightValue = 0 then Inl DivideByZero
           else pushInteger (int64_div leftValue rightValue) vm)
        else Inr (Some (UnknownIntegerOperator op), vm)))"

definition executeBinaryOperation ::
  "Opcodes \<Rightarrow> byte \<Rightarrow> VM \<Rightarrow> fault + (error option \<times> VM)" where
  "executeBinaryOperation T op vm =
     (case pop vm of Inl f \<Rightarrow> Inl f | Inr (right, vm1) \<Rightarrow>
     (case pop vm1 of Inl f \<Rightarrow> Inl f | Inr (left, vm2) \<Rightarrow>
     (case Type (heap vm2) left of Inl f \<Rightarrow> Inl f | Inr leftType \<Rightarrow>
     (case Type (heap vm2) right of Inl f \<Rightarrow> Inl f | Inr rightType \<Rightarrow>
        if leftType = INTEGER_OBJ \<and> rightType = INTEGER_OBJ
        then executeBinaryIntegerOperation T op left right vm2
        else Inr (Some (UnsupportedBinary leftType rightType), vm2)))))"

definition nativeBoolToBoolean :: "bool \<Rightarrow> Object" where
  "nativeBoolToBoolean input = (if input then True_obj else False_obj)"

definition executeIntegerComparison ::
  "Opcodes \<Rightarrow> byte \<Rightarrow> Object \<Rightarrow> Object \<Rightarrow> VM \<Rightarrow> fault + (error option \<times> VM)" where
  "executeIntegerComparison T op left right vm =
     (case IntegerValue (heap vm) left of Inl f \<Rightarrow> Inl f | Inr leftval \<Rightarrow>
     (case IntegerValue (heap vm) right of Inl f \<Rightarrow> Inl f | Inr rightval \<Rightarrow>
        if op = OpEqual T then push (nativeBoolToBoolean (rightval = leftval)) vm
        else if op = OpNotEqual T then push (nativeBoolToBoolean (rightval \<noteq> leftval)) vm
        else if op = OpGreaterThan T
        then push (nativeBoolToBoolean (sint leftval > sint rightval)) vm
        else Inr (Some (UnknownOperator op), vm)))"

text \<open>
  The part of \<open>executeComparison\<close> after the Integer test: the switch on the operator.
  The kinds are only asked for in the default case, left first.
\<close>

definition compareByIdentity ::
  "Opcodes \<Rightarrow> byte \<Rightarrow> Object \<Rightarrow> Object \<Rightarrow> VM \<Rightarrow> fault + (error option \<times> VM)" where
  "compareByIdentity T op left right vm =
     (if op = OpEqual T then push (nativeBoolToBoolean (right = left)) vm
      else if op = OpNotEqual T then push (nativeBoolToBoolean (right \<noteq> left)) vm
      else
        (case Type (heap vm) left of Inl f \<Rightarrow> Inl f | Inr leftType \<Rightarrow>
        (case Type (heap vm) right of Inl f \<Rightarrow> Inl f | Inr rightType \<Rightarrow>
           Inr (Some (UnknownOperatorOn op leftType rightType), vm))))"

text \<open>
  \<open>left.Type() == INTEGER_OBJ && right.Type() == INTEGER_OBJ\<close> asks the right operand
  for its kind only when the left one is an Integer.
\<close>

definition executeComparison ::
  "Opcodes \<Rightarrow> byte \<Rightarrow> VM \<Rightarrow> fault + (error option \<times> VM)" where
  "executeComparison T op vm =
     (case pop vm of Inl f \<Rightarrow> Inl f | Inr (right, vm1) \<Rightarrow>
     (case pop vm1 of Inl f \<Rightarrow> Inl f | Inr (left, vm2) \<Rightarrow>
     (case Type (heap vm2) left of Inl f \<Rightarrow> Inl f | Inr leftType \<Rightarrow>
        if leftType = INTEGER_OBJ then
          (case Type (heap vm2) right of Inl f \<Rightarrow> Inl f | Inr rightType \<Rightarrow>
             if rightType = INTEGER_OBJ
             then executeIntegerComparison T op left right vm2
             else compareByIdentity T op left right vm2)
        else compareByIdentity T op left right vm2)))"

definition executeBangOperator :: "VM \<Rightarrow> fault + (error option \<times> VM)" where
  "executeBangOperator vm =
     (case pop vm of Inl f \<Rightarrow> Inl f | Inr (operand, vm1) \<Rightarrow>
        if operand = True_obj then push False_obj vm1
        else if operand = False_obj then push True_obj vm1
        else push False_obj vm1)"

definition executeMinusOperator :: "VM \<Rightarrow> fault + (error option \<times> VM)" where
  "executeMinusOperator vm =
     (case pop vm of Inl f \<Rightarrow> Inl f | Inr (operand, vm1) \<Rightarrow>
     (case Type (heap vm1) operand of Inl f \<Rightarrow> Inl f | Inr t \<Rightarrow>
        if t \<noteq> INTEGER_OBJ then Inr (Some (UnsupportedNegation t), vm1)
        else
          (case IntegerValue (heap vm1) operand of Inl f \<Rightarrow> Inl f
           | Inr v \<Rightarrow> pushInteger (- v) vm1)))"

text \<open>
  Modelled from the spec: \<open>code.ReadUint16\<close> is not among the sources; an operand is a
  fixed-width big-endian 2-byte unsigned integer. Fewer than two bytes is an index out
  of range.
\<close>

definition ReadUint16 :: "byte list \<Rightarrow> fault + nat" where
  "ReadUint16 ins =
     (case ins of b0 # b1 # rest \<Rightarrow> Inr (unat b0 * 256 + unat b1) | _ \<Rightarrow> Inl IndexOutOfRange)"

subsection \<open>The dispatch loop of \<open>Run\<close>\<close>

text \<open>
  One pass through the body of the loop of \<open>Run\<close>, at instruction pointer \<open>ip\<close>: either
  the loop goes on (with the pointer the body has left, before the loop's \<open>ip++\<close>), or
  \<open>Run\<close> returns.
\<close>

datatype flow = Continue nat VM | Return "error option" VM

text \<open>The pattern \<open>if err != nil { return err }\<close>.\<close>

definition returnOnError :: "nat \<Rightarrow> fault + (error option \<times> VM) \<Rightarrow> fault + flow" where
  "returnOnError ip r =
     (case r of
        Inl f \<Rightarrow> Inl f
      | Inr (Some err, vm') \<Rightarrow> Inr (Return (Some err) vm')
      | Inr (None, vm') \<Rightarrow> Inr (Continue ip vm'))"

text \<open>The pattern of lines 46 to 49: \<open>if err != nil { return nil }\<close>.\<close>

definition returnNilOnError :: "nat \<Rightarrow> fault + (error option \<times> VM) \<Rightarrow> fault + flow" where
  "returnNilOnError ip r =
     (case r of
        Inl f \<Rightarrow> Inl f
      | Inr (Some err, vm') \<Rightarrow> Inr (Return None vm')
      | Inr (None, vm') \<Rightarrow> Inr (Continue ip vm'))"

definition dispatch :: "Opcodes \<Rightarrow> nat \<Rightarrow> VM \<Rightarrow> fault + flow" where
  "dispatch T ip vm =
     (let op = instructions vm ! ip in
      if op = OpConstant T then
        (case ReadUint16 (drop (ip + 1) (instructions vm)) of
           Inl f \<Rightarrow> Inl f
         | Inr constIndex \<Rightarrow>
             if constIndex < length (contants vm)
             then returnOnError (ip + 2) (push (contants vm ! constIndex) vm)
             else Inl IndexOutOfRange)
      else if op = OpAdd T \<or> op = OpSub T \<or> op = OpMul T \<or> op = OpDiv T then
        returnNilOnError ip (executeBinaryOperation T op vm)
      else if op = OpPop T then
        (case pop vm of Inl f \<Rightarrow> Inl f | Inr (popped, vm') \<Rightarrow> Inr (Continue ip vm'))
      else if op = OpTrue T then returnOnError ip (push True_obj vm)
      else if op = OpFalse T then returnOnError ip (push False_obj vm)
      else if op = OpEqual T \<or> op = OpNotEqual T \<or> op = OpGreaterThan T then
        returnOnError ip (executeComparison T op vm)
      else if op = OpBang T then returnOnError ip (executeBangOperator vm)
      else if op = OpMinus T then returnOnError ip (executeMinusOperator vm)
      else Inr (Continue ip vm))"

text \<open>
  The loop \<open>for ip := 0; ip < len(vm.instructions); ip++\<close>. It ends because no
  operation changes the instruction stream and the body never moves the pointer back,
  which is proved before the function is accepted.
\<close>

lemma push_instructions: "push ob vm = Inr (e, vm') \<Longrightarrow> instructions vm' = instructions vm"
  by (auto simp: push_def split: if_splits)

lemma pop_instructions: "pop vm = Inr (x, vm') \<Longrightarrow> instructions vm' = instructions vm"
  by (auto simp: pop_def split: if_splits)

lemma pushInteger_instructions:
  "pushInteger v vm = Inr (e, vm') \<Longrightarrow> instructions vm' = instructions vm"
  by (auto simp: pushInteger_def newInteger_def dest!: push_instructions)

lemma executeBinaryIntegerOperation_instructions:
  "executeBinaryIntegerOperation T op l r vm = Inr (e, vm') \<Longrightarrow>
   instructions vm' = instructions vm"
  by (auto simp: executeBinaryIntegerOperation_def
      split: sum.splits if_splits dest!: pushInteger_instructions)

lemma executeBinaryOperation_instructions:
  "executeBinaryOperation T op vm = Inr (e, vm') \<Longrightarrow> instructions vm' = instructions vm"
  by (auto simp: executeBinaryOperation_def
      split: sum.splits if_splits prod.splits
      dest!: pop_instructions executeBinaryIntegerOperation_instructions)

lemma executeIntegerComparison_instructions:
  "executeIntegerComparison T op l r vm = Inr (e, vm') \<Longrightarrow>
   instructions vm' = instructions vm"
  by (auto simp: executeIntegerComparison_def
      split: sum.splits if_splits dest!: push_instructions)

lemma compareByIdentity_instructions:
  "compareByIdentity T op l r vm = Inr (e, vm') \<Longrightarrow> instructions vm' = instructions vm"
  by (auto simp: compareByIdentity_def
      split: sum.splits if_splits dest!: push_instructions)

lemma executeComparison_instructions:
  "executeComparison T op vm = Inr (e, vm') \<Longrightarrow> instructions vm' = instructions vm"
  by (auto simp: executeComparison_def
      split: sum.splits if_splits prod.splits
      dest!: pop_instructions executeIntegerComparison_instructions
        compareByIdentity_instructions)

lemma executeBangOperator_instructions:
  "executeBangOperator vm = Inr (e, vm') \<Longrightarrow> instructions vm' = instructions vm"
  by (auto simp: executeBangOperator_def
      split: sum.splits if_splits prod.splits
      dest!: pop_instructions push_instructions)

lemma executeMinusOperator_instructions:
  "executeMinusOperator vm = Inr (e, vm') \<Longrightarrow> instructions vm' = instructions vm"
  by (auto simp: executeMinusOperator_def
      split: sum.splits if_splits prod.splits
      dest!: pop_instructions pushInteger_instructions)

lemma returnOnError_Continue:
  "returnOnError ip r = Inr (Continue ip' vm') \<Longrightarrow> ip' = ip \<and> r = Inr (None, vm')"
  by (auto simp: returnOnError_def split: sum.splits option.splits prod.splits)

lemma returnNilOnError_Continue:
  "returnNilOnError ip r = Inr (Continue ip' vm') \<Longrightarrow> ip' = ip \<and> r = Inr (None, vm')"
  by (auto simp: returnNilOnError_def split: sum.splits option.splits prod.splits)

lemma dispatch_Continue:
  "dispatch T ip vm = Inr (Continue ip' vm') \<Longrightarrow>
   ip \<le> ip' \<and> instructions vm' = instructions vm"
  unfolding dispatch_def Let_def
  by (auto split: if_splits sum.splits prod.splits
      dest!: returnOnError_Continue returnNilOnError_Continue
      dest: push_instructions pop_instructions executeBinaryOperation_instructions
        executeComparison_instructions executeBangOperator_instructions
        executeMinusOperator_instructions)

function Run_from :: "Opcodes \<Rightarrow> nat \<Rightarrow> VM \<Rightarrow> fault + (error option \<times> VM)" where
  "Run_from T ip vm =
     (if ip < length (instructions vm) then
        (case dispatch T ip vm of
           Inl f \<Rightarrow> Inl f
         | Inr (Return err vm') \<Rightarrow> Inr (err, vm')
         | Inr (Continue ip' vm') \<Rightarrow> Run_from T (ip' + 1) vm')
      else Inr (None, vm))"
  by pat_completeness auto
termination
proof (relation "measure (\<lambda>(T, ip, vm). length (instructions vm) - ip)")
  show "wf (measure (\<lambda>(T, ip, vm). length (instructions vm) - ip))" by simp
next
  fix T ip vm x2 ip' vm'
  assume "ip < length (instructions vm)" "dispatch T ip vm = Inr x2" "x2 = Continue ip' vm'"
  then have "ip \<le> ip' \<and> instructions vm' = instructions vm"
    using dispatch_Continue by blast
  with \<open>ip < length (instructions vm)\<close>
  show "((T, ip' + 1, vm'), T, ip, vm)
          \<in> measure (\<lambda>(T, ip, vm). length (instructions vm) - ip)"
    by auto
qed

definition Run :: "Opcodes \<Rightarrow> VM \<Rightarrow> fault + (error option \<times> VM)" where
  "Run T vm = Run_from T 0 vm"

section \<open>Facts about the operations\<close>

lemma distinct_sample_ops: "distinct_ops sample_ops"
  by (simp add: distinct_ops_def known_ops_def sample_ops_def)

lemma stack_ok_New: "stack_ok (New h bc)"
  by (simp add: stack_ok_def New_def StackSize_def)

lemma pop_ok:
  "stack_ok vm \<Longrightarrow> 1 \<le> sp vm \<Longrightarrow>
   pop vm = Inr (stack vm ! nat (sp vm - 1), vm\<lparr>sp := sp vm - 1\<rparr>)"
  by (simp add: pop_def stack_ok_def)

lemma pop_twice:
  assumes "stack_ok vm" and "2 \<le> sp vm"
  shows "pop vm = Inr (stack vm ! nat (sp vm - 1), vm\<lparr>sp := sp vm - 1\<rparr>)"
    and "pop (vm\<lparr>sp := sp vm - 1\<rparr>) = Inr (stack vm ! nat (sp vm - 2), vm\<lparr>sp := sp vm - 2\<rparr>)"
  using assms by (simp_all add: pop_def stack_ok_def)

lemma push_ok:
  "int (length (stack vm)) = StackSize \<Longrightarrow> 0 \<le> sp vm \<Longrightarrow> sp vm < StackSize \<Longrightarrow>
   push ob vm = Inr (None, vm\<lparr>stack := (stack vm)[nat (sp vm) := ob], sp := sp vm + 1\<rparr>)"
  by (simp add: push_def)

lemma pushInteger_ok:
  "int (length (stack vm)) = StackSize \<Longrightarrow> 0 \<le> sp vm \<Longrightarrow> sp vm < StackSize \<Longrightarrow>
   pushInteger v vm =
     Inr (None, vm\<lparr>stack := (stack vm)[nat (sp vm) := Ptr (length (heap vm))],
                     sp := sp vm + 1, heap := heap vm @ [Integer v]\<rparr>)"
  by (simp add: pushInteger_def newInteger_def push_def)

lemma push_after_two_pops:
  assumes "stack_ok vm" and "2 \<le> sp vm"
  shows "push ob (vm\<lparr>sp := sp vm - 2\<rparr>) =
           Inr (None, vm\<lparr>stack := (stack vm)[nat (sp vm - 2) := ob], sp := sp vm - 1\<rparr>)"
  using assms by (simp add: push_ok stack_ok_def)

lemma pushInteger_after_two_pops:
  assumes "stack_ok vm" and "2 \<le> sp vm"
  shows "pushInteger v (vm\<lparr>sp := sp vm - 2\<rparr>) =
           Inr (None, vm\<lparr>stack := (stack vm)[nat (sp vm - 2) := Ptr (length (heap vm))],
                           sp := sp vm - 1, heap := heap vm @ [Integer v]\<rparr>)"
  using assms by (simp add: pushInteger_ok stack_ok_def)

lemma Type_load: "load h ob = Some c \<Longrightarrow> Type h ob = Inr (kind c)"
  by (simp add: Type_def)

lemma IntegerValue_load: "load h ob = Some (Integer v) \<Longrightarrow> IntegerValue h ob = Inr v"
  by (simp add: IntegerValue_def)

text \<open>What each opcode byte dispatches to, once the opcodes are known to differ.\<close>

lemma dispatch_OpTrue:
  "distinct_ops T \<Longrightarrow> instructions vm ! ip = OpTrue T \<Longrightarrow>
   dispatch T ip vm = returnOnError ip (push True_obj vm)"
  by (auto simp: dispatch_def distinct_ops_def known_ops_def)

lemma dispatch_OpPop:
  "distinct_ops T \<Longrightarrow> instructions vm ! ip = OpPop T \<Longrightarrow>
   dispatch T ip vm =
     (case pop vm of Inl f \<Rightarrow> Inl f | Inr (popped, vm') \<Rightarrow> Inr (Continue ip vm'))"
  by (auto simp: dispatch_def distinct_ops_def known_ops_def)

lemma dispatch_OpDiv:
  "distinct_ops T \<Longrightarrow> instructions vm ! ip = OpDiv T \<Longrightarrow>
   dispatch T ip vm = returnNilOnError ip (executeBinaryOperation T (OpDiv T) vm)"
  by (auto simp: dispatch_def distinct_ops_def known_ops_def)


lemma dispatch_OpGreaterThan:
  "distinct_ops T \<Longrightarrow> instructions vm ! ip = OpGreaterThan T \<Longrightarrow>
   dispatch T ip vm = returnOnError ip (executeComparison T (OpGreaterThan T) vm)"
  by (auto simp: dispatch_def distinct_ops_def known_ops_def)

lemma dispatch_unknown:
  "instructions vm ! ip \<notin> set (known_ops T) \<Longrightarrow> dispatch T ip vm = Inr (Continue ip vm)"
  by (simp add: dispatch_def known_ops_def)

section \<open>The claims\<close>

subsection \<open>Stack discipline\<close>

text \<open>
  C10. In a machine that satisfies the stack invariant, \<open>push\<close> with the stack pointer
  at \<open>StackSize\<close> returns the stack-overflow error and leaves the whole machine (stack
  pointer and stack contents) as it was; with the stack pointer below \<open>StackSize\<close> it
  stores the value at \<open>stack[sp]\<close> and increments \<open>sp\<close>. Every \<open>push\<close> that returns
  keeps the invariant \<open>0 \<le> sp \<le> StackSize\<close>, and \<open>push\<close> always returns (it never
  panics and never drops the value silently).
\<close>

theorem push_at_capacity_or_below:
  assumes "stack_ok vm"
  shows "(sp vm = StackSize \<longrightarrow> push ob vm = Inr (Some StackOverflow, vm)) \<and>
         (sp vm < StackSize \<longrightarrow>
            push ob vm =
              Inr (None, vm\<lparr>stack := (stack vm)[nat (sp vm) := ob], sp := sp vm + 1\<rparr>) \<and>
            (stack vm)[nat (sp vm) := ob] ! nat (sp vm) = ob) \<and>
         (\<forall>e vm'. push ob vm = Inr (e, vm') \<longrightarrow> stack_ok vm') \<and>
         (\<exists>e vm'. push ob vm = Inr (e, vm'))"
  using assms by (auto simp: push_def stack_ok_def)

theorem push_at_capacity_or_below_witness:
  "stack_ok (New [] no_code) \<and> sp (New [] no_code) < StackSize \<and>
   push True_obj (New [] no_code) =
     Inr (None, (New [] no_code)\<lparr>stack := (stack (New [] no_code))[0 := True_obj], sp := 1\<rparr>) \<and>
   stack_ok full_vm \<and> sp full_vm = StackSize \<and>
   push False_obj full_vm = Inr (Some StackOverflow, full_vm)"
proof -
  have a: "stack_ok (New [] no_code)"
    by (rule stack_ok_New)
  have a': "sp (New [] no_code) < StackSize"
    by (simp add: New_def StackSize_def)
  have b: "stack_ok full_vm" and b': "sp full_vm = StackSize"
    by (simp_all add: stack_ok_def full_vm_def with_stack_def New_def StackSize_def)
  from push_at_capacity_or_below [OF a, of True_obj] a'
  have "push True_obj (New [] no_code) =
     Inr (None, (New [] no_code)\<lparr>stack := (stack (New [] no_code))[0 := True_obj], sp := 1\<rparr>)"
    by (simp add: New_def)
  moreover from push_at_capacity_or_below [OF b, of False_obj] b'
  have "push False_obj full_vm = Inr (Some StackOverflow, full_vm)"
    by simp
  ultimately show ?thesis using a a' b b' by simp
qed

subsection \<open>Unary operators\<close>

text \<open>
  C8. \<open>executeBangOperator\<close> on a machine with at least one value on the stack: when
  the operand is the singleton \<open>True\<close> it is replaced by the singleton \<open>False\<close>, when
  it is the singleton \<open>False\<close> it is replaced by the singleton \<open>True\<close>, and when it is
  neither of the two singletons (an Integer, a Boolean object allocated elsewhere, nil)
  it is replaced by the singleton \<open>False\<close>; no case is an error.
\<close>

theorem bang_three_way:
  assumes "stack_ok vm" and "1 \<le> sp vm"
  shows "(stack vm ! nat (sp vm - 1) = True_obj \<longrightarrow>
            executeBangOperator vm =
              Inr (None, vm\<lparr>stack := (stack vm)[nat (sp vm - 1) := False_obj]\<rparr>)) \<and>
         (stack vm ! nat (sp vm - 1) = False_obj \<longrightarrow>
            executeBangOperator vm =
              Inr (None, vm\<lparr>stack := (stack vm)[nat (sp vm - 1) := True_obj]\<rparr>)) \<and>
         (stack vm ! nat (sp vm - 1) \<noteq> True_obj \<and> stack vm ! nat (sp vm - 1) \<noteq> False_obj \<longrightarrow>
            executeBangOperator vm =
              Inr (None, vm\<lparr>stack := (stack vm)[nat (sp vm - 1) := False_obj]\<rparr>))"
  using assms by (simp add: executeBangOperator_def pop_ok push_ok stack_ok_def)

theorem bang_three_way_witness:
  "stack_ok (with_stack [Ptr 0] (New [Integer 5] no_code)) \<and>
   executeBangOperator (with_stack [Ptr 0] (New [Integer 5] no_code)) =
     Inr (None, with_stack [False_obj] (New [Integer 5] no_code)) \<and>
   executeBangOperator (with_stack [True_obj] (New [] no_code)) =
     Inr (None, with_stack [False_obj] (New [] no_code)) \<and>
   executeBangOperator (with_stack [False_obj] (New [] no_code)) =
     Inr (None, with_stack [True_obj] (New [] no_code))"
proof -
  have ok: "stack_ok (with_stack [x] (New h no_code))"
    and one: "1 \<le> sp (with_stack [x] (New h no_code))" for x h
    by (simp_all add: stack_ok_def with_stack_def New_def StackSize_def)
  show ?thesis
    using ok [of "Ptr 0" "[Integer 5]"]
      bang_three_way [OF ok one, of "Ptr 0" "[Integer 5]"]
      bang_three_way [OF ok one, of True_obj "[]"]
      bang_three_way [OF ok one, of False_obj "[]"]
    by (simp add: with_stack_def New_def)
qed



subsection \<open>Division by zero\<close>

text \<open>
  C7. The divide opcode on two Integers whose right operand is 0 produces no \<open>error\<close>
  value: \<open>executeBinaryOperation\<close> panics with Go's integer-divide-by-zero fault, and so
  does \<open>Run\<close> when it executes the opcode.
\<close>

theorem divide_by_zero_panics:
  assumes "distinct_ops T" and "stack_ok vm" and "2 \<le> sp vm"
    and "load (heap vm) (stack vm ! nat (sp vm - 2)) = Some (Integer a)"
    and "load (heap vm) (stack vm ! nat (sp vm - 1)) = Some (Integer 0)"
  shows "executeBinaryOperation T (OpDiv T) vm = Inl DivideByZero \<and>
         (ip < length (instructions vm) \<and> instructions vm ! ip = OpDiv T \<longrightarrow>
            Run_from T ip vm = Inl DivideByZero)"
proof -
  have d: "OpDiv T \<noteq> OpAdd T" "OpDiv T \<noteq> OpSub T" "OpDiv T \<noteq> OpMul T"
    using assms(1) by (auto simp: distinct_ops_def known_ops_def)
  have e: "executeBinaryOperation T (OpDiv T) vm = Inl DivideByZero"
    using assms(2-) d
    by (simp add: executeBinaryOperation_def pop_twice Type_load
        executeBinaryIntegerOperation_def IntegerValue_load)
  show ?thesis
    using e assms(1) by (simp add: dispatch_OpDiv returnNilOnError_def)
qed

theorem divide_by_zero_panics_witness:
  "Run sample_ops
     (with_stack [Ptr 0, Ptr 1] (New [Integer 7, Integer 0] \<lparr>Instructions = [5], Constants = []\<rparr>)) =
   Inl DivideByZero"
  using divide_by_zero_panics [of sample_ops
      "with_stack [Ptr 0, Ptr 1] (New [Integer 7, Integer 0] \<lparr>Instructions = [5], Constants = []\<rparr>)"
      7 0]
    distinct_sample_ops
  by (simp add: with_stack_def New_def load_def Run_def sample_ops_def stack_ok_def StackSize_def
      del: Run_from.simps)

subsection \<open>Binary arithmetic\<close>

text \<open>Truncating division of integers never exceeds the dividend in absolute value.\<close>

lemma sdiv_abs_le: "\<bar>(k::int) sdiv l\<bar> \<le> \<bar>k\<bar>"
proof -
  have n: "0 \<le> \<bar>k\<bar> div \<bar>l\<bar>"
    by (simp add: div_int_pos_iff)
  have "\<bar>k sdiv l\<bar> = \<bar>sgn k\<bar> * \<bar>sgn l\<bar> * (\<bar>k\<bar> div \<bar>l\<bar>)"
    using n by (simp add: signed_divide_int_def abs_mult)
  also have "\<dots> \<le> \<bar>k\<bar> div \<bar>l\<bar>"
    by (cases "k = 0"; cases "l = 0") (simp_all add: abs_sgn_eq)
  also have "\<dots> \<le> \<bar>k\<bar>"
  proof (cases "k = 0")
    case True
    then show ?thesis by simp
  next
    case False
    then show ?thesis by (intro int_div_le_self) simp
  qed
  finally show ?thesis .
qed

text \<open>The only quotient of two \<open>int64\<close> values that does not fit in 64 bits.\<close>

lemma sdiv_top:
  assumes "- (2 ^ 63) \<le> (k::int)" "k < 2 ^ 63" "k sdiv l = 2 ^ 63"
  shows "k = - (2 ^ 63) \<and> l = - 1"
proof -
  have "\<bar>k sdiv l\<bar> \<le> \<bar>k\<bar>" by (rule sdiv_abs_le)
  with assms have k: "k = - (2 ^ 63)" by simp
  have q: "sgn l * (2 ^ 63 div \<bar>l\<bar>) = - (2 ^ 63)"
    using assms(3) by (simp add: signed_divide_int_def k)
  have "l < 0"
  proof (rule ccontr)
    assume "\<not> l < 0"
    then have "0 \<le> sgn l * (2 ^ 63 div \<bar>l\<bar>)"
      by (cases "l = 0") (simp_all add: pos_imp_zdiv_nonneg_iff)
    with q show False by simp
  qed
  then have d: "2 ^ 63 div \<bar>l\<bar> = (2 ^ 63 :: int)"
    using q by simp
  have "\<not> 2 \<le> \<bar>l\<bar>"
  proof
    assume "2 \<le> \<bar>l\<bar>"
    then have "(2 ^ 63 :: int) div \<bar>l\<bar> \<le> 2 ^ 63 div 2"
      by (intro zdiv_mono2) simp_all
    with d show False by simp
  qed
  with \<open>l < 0\<close> have "l = - 1" by simp
  with k show ?thesis by simp
qed

lemma sint_int64_div:
  "sint (word_of_int (sint (a::int64) sdiv sint (b::int64)) :: int64) =
     (if sint a = - (2 ^ 63) \<and> sint b = - 1 then - (2 ^ 63) else sint a sdiv sint b)"
proof (cases "sint a = - (2 ^ 63) \<and> sint b = - 1")
  case True
  then show ?thesis by (simp add: signed_divide_int_def)
next
  case False
  have b: "- (2 ^ 63) \<le> sint a" "sint a < 2 ^ 63"
    using sint_ge [of a] sint_lt [of a] by simp_all
  have "\<bar>sint a sdiv sint b\<bar> \<le> \<bar>sint a\<bar>" by (rule sdiv_abs_le)
  with b have r: "- (2 ^ 63) \<le> sint a sdiv sint b" "sint a sdiv sint b \<le> 2 ^ 63"
    by simp_all
  have "sint a sdiv sint b \<noteq> 2 ^ 63"
    using sdiv_top [OF b] False by blast
  with r have "- (2 ^ 63) \<le> sint a sdiv sint b" "sint a sdiv sint b < 2 ^ 63"
    by simp_all
  then have "sint (word_of_int (sint a sdiv sint b) :: int64) = sint a sdiv sint b"
    by (simp add: sint_sbintrunc' signed_take_bit_int_eq_self)
  with False show ?thesis by simp
qed

lemma executeBinaryOperation_integers:
  assumes "stack_ok vm" and "2 \<le> sp vm"
    and "load (heap vm) (stack vm ! nat (sp vm - 2)) = Some (Integer a)"
    and "load (heap vm) (stack vm ! nat (sp vm - 1)) = Some (Integer b)"
  shows "executeBinaryOperation T op vm =
           (if op = OpAdd T then pushInteger (a + b) (vm\<lparr>sp := sp vm - 2\<rparr>)
            else if op = OpSub T then pushInteger (a - b) (vm\<lparr>sp := sp vm - 2\<rparr>)
            else if op = OpMul T then pushInteger (a * b) (vm\<lparr>sp := sp vm - 2\<rparr>)
            else if op = OpDiv T then
              (if b = 0 then Inl DivideByZero
               else pushInteger (int64_div a b) (vm\<lparr>sp := sp vm - 2\<rparr>))
            else Inr (Some (UnknownIntegerOperator op), vm\<lparr>sp := sp vm - 2\<rparr>))"
  using assms
  by (simp add: executeBinaryOperation_def pop_twice Type_load
      executeBinaryIntegerOperation_def IntegerValue_load)

text \<open>
  C2. On a machine whose two topmost stack values are Integers, \<open>a\<close> pushed first (the
  left operand, at \<open>sp - 2\<close>) and \<open>b\<close> pushed last (the right operand, at \<open>sp - 1\<close>), the
  binary opcodes replace the two by one new Integer: \<open>a + b\<close> for add, \<open>a - b\<close> for
  subtract, \<open>a * b\<close> for multiply, each in 64-bit wrap-around arithmetic, and for divide
  with \<open>b \<noteq> 0\<close> the quotient of the signed values truncated towards zero and reduced to
  64 bits. That 64-bit value is the exact truncated quotient for every pair except
  \<open>a = - 2^63\<close>, \<open>b = - 1\<close>, where the quotient \<open>2^63\<close> does not fit and the result is
  \<open>- 2^63\<close>.
\<close>

theorem binary_integer_arithmetic:
  assumes "distinct_ops T" and "stack_ok vm" and "2 \<le> sp vm"
    and "load (heap vm) (stack vm ! nat (sp vm - 2)) = Some (Integer a)"
    and "load (heap vm) (stack vm ! nat (sp vm - 1)) = Some (Integer b)"
  shows "executeBinaryOperation T (OpAdd T) vm =
           Inr (None, vm\<lparr>stack := (stack vm)[nat (sp vm - 2) := Ptr (length (heap vm))],
                           sp := sp vm - 1, heap := heap vm @ [Integer (a + b)]\<rparr>) \<and>
         executeBinaryOperation T (OpSub T) vm =
           Inr (None, vm\<lparr>stack := (stack vm)[nat (sp vm - 2) := Ptr (length (heap vm))],
                           sp := sp vm - 1, heap := heap vm @ [Integer (a - b)]\<rparr>) \<and>
         executeBinaryOperation T (OpMul T) vm =
           Inr (None, vm\<lparr>stack := (stack vm)[nat (sp vm - 2) := Ptr (length (heap vm))],
                           sp := sp vm - 1, heap := heap vm @ [Integer (a * b)]\<rparr>) \<and>
         (b \<noteq> 0 \<longrightarrow>
            executeBinaryOperation T (OpDiv T) vm =
              Inr (None, vm\<lparr>stack := (stack vm)[nat (sp vm - 2) := Ptr (length (heap vm))],
                              sp := sp vm - 1,
                              heap := heap vm @ [Integer (word_of_int (sint a sdiv sint b))]\<rparr>) \<and>
            sint (word_of_int (sint a sdiv sint b) :: int64) =
              (if sint a = - (2 ^ 63) \<and> sint b = - 1 then - (2 ^ 63) else sint a sdiv sint b))"
proof -
  have d: "OpSub T \<noteq> OpAdd T" "OpMul T \<noteq> OpAdd T" "OpMul T \<noteq> OpSub T"
    "OpDiv T \<noteq> OpAdd T" "OpDiv T \<noteq> OpSub T" "OpDiv T \<noteq> OpMul T"
    using assms(1) by (auto simp: distinct_ops_def known_ops_def)
  note e = executeBinaryOperation_integers [OF assms(2-5)]
  note p = pushInteger_after_two_pops [OF assms(2,3)]
  have "executeBinaryOperation T (OpAdd T) vm =
           Inr (None, vm\<lparr>stack := (stack vm)[nat (sp vm - 2) := Ptr (length (heap vm))],
                           sp := sp vm - 1, heap := heap vm @ [Integer (a + b)]\<rparr>)"
    by (simp add: e p)
  moreover have "executeBinaryOperation T (OpSub T) vm =
           Inr (None, vm\<lparr>stack := (stack vm)[nat (sp vm - 2) := Ptr (length (heap vm))],
                           sp := sp vm - 1, heap := heap vm @ [Integer (a - b)]\<rparr>)"
    by (simp add: e p d)
  moreover have "executeBinaryOperation T (OpMul T) vm =
           Inr (None, vm\<lparr>stack := (stack vm)[nat (sp vm - 2) := Ptr (length (heap vm))],
                           sp := sp vm - 1, heap := heap vm @ [Integer (a * b)]\<rparr>)"
    by (simp add: e p d)
  moreover have "b \<noteq> 0 \<Longrightarrow> executeBinaryOperation T (OpDiv T) vm =
              Inr (None, vm\<lparr>stack := (stack vm)[nat (sp vm - 2) := Ptr (length (heap vm))],
                              sp := sp vm - 1,
                              heap := heap vm @ [Integer (word_of_int (sint a sdiv sint b))]\<rparr>)"
    by (simp add: e p d int64_div_def)
  ultimately show ?thesis
    using sint_int64_div [of a b] by blast
qed

theorem binary_integer_arithmetic_witness:
  "executeBinaryOperation sample_ops 3
     (with_stack [Ptr 0, Ptr 1] (New [Integer (- 7), Integer 2] no_code)) =
     Inr (None, (with_stack [Ptr 2, Ptr 1] (New [Integer (- 7), Integer 2, Integer (- 9)] no_code))
                  \<lparr>sp := 1\<rparr>) \<and>
   executeBinaryOperation sample_ops 5
     (with_stack [Ptr 0, Ptr 1] (New [Integer (- 7), Integer 2] no_code)) =
     Inr (None, (with_stack [Ptr 2, Ptr 1] (New [Integer (- 7), Integer 2, Integer (- 3)] no_code))
                  \<lparr>sp := 1\<rparr>)"
  using binary_integer_arithmetic [of sample_ops
      "with_stack [Ptr 0, Ptr 1] (New [Integer (- 7), Integer 2] no_code)" "- 7" 2]
    distinct_sample_ops
  by (simp add: with_stack_def New_def load_def sample_ops_def stack_ok_def StackSize_def
      signed_divide_int_def)

text \<open>
  C2 as the spec words it (divide yields the truncating integer quotient) fails at
  \<open>a = - 2^63\<close>, \<open>b = - 1\<close>: the quotient is \<open>2^63\<close>, the Integer stored has the signed
  value \<open>- 2^63\<close>.
\<close>

theorem divide_overflow_counterexample:
  "executeBinaryOperation sample_ops 5
     (with_stack [Ptr 0, Ptr 1]
        (New [Integer (- 9223372036854775808), Integer (- 1)] no_code)) =
     Inr (None,
       (with_stack [Ptr 2, Ptr 1]
          (New [Integer (- 9223372036854775808), Integer (- 1),
                Integer (- 9223372036854775808)] no_code))\<lparr>sp := 1\<rparr>) \<and>
   sint (- 9223372036854775808 :: int64) = - 9223372036854775808 \<and>
   sint (- 9223372036854775808 :: int64) sdiv sint (- 1 :: int64) = 9223372036854775808 \<and>
   sint (- 9223372036854775808 :: int64) \<noteq>
     sint (- 9223372036854775808 :: int64) sdiv sint (- 1 :: int64)"
  by (simp add: executeBinaryOperation_def executeBinaryIntegerOperation_def pop_def Type_def
      IntegerValue_def pushInteger_def newInteger_def push_def int64_div_def
      with_stack_def New_def load_def sample_ops_def StackSize_def signed_divide_int_def)

text \<open>
  Lines 46 to 49 of \<open>Run\<close>: when a binary arithmetic opcode fails, \<open>Run\<close> stops, and
  what it returns is \<open>nil\<close>, whatever the error was.
\<close>

lemma Run_from_binary_error:
  assumes "distinct_ops T" and "ip < length (instructions vm)"
    and "instructions vm ! ip = op"
    and "op = OpAdd T \<or> op = OpSub T \<or> op = OpMul T \<or> op = OpDiv T"
    and "executeBinaryOperation T op vm = Inr (Some err, vm')"
  shows "Run_from T ip vm = Inr (None, vm')"
proof -
  have "op \<noteq> OpConstant T"
    using assms(1,4) by (auto simp: distinct_ops_def known_ops_def)
  then have "dispatch T ip vm = returnNilOnError ip (executeBinaryOperation T op vm)"
    using assms(3,4) by (simp add: dispatch_def)
  then have "dispatch T ip vm = Inr (Return None vm')"
    using assms(5) by (simp add: returnNilOnError_def)
  then show ?thesis
    using assms(2) by simp
qed

text \<open>
  C4. On a machine whose two topmost stack values are objects that are not both Integers,
  each of the four binary arithmetic opcodes yields, from \<open>executeBinaryOperation\<close>, the
  error "unsupported types for binary operation" with the kinds of the left and of the
  right operand; that much of the claim holds. But \<open>Run\<close>, executing the opcode, does not
  return that error to its caller: it stops and returns \<open>nil\<close>, as after a successful run.
\<close>

theorem binary_type_error_not_returned_by_Run:
  assumes "distinct_ops T" and "stack_ok vm" and "2 \<le> sp vm"
    and "load (heap vm) (stack vm ! nat (sp vm - 2)) = Some cl"
    and "load (heap vm) (stack vm ! nat (sp vm - 1)) = Some cr"
    and "\<not> (kind cl = INTEGER_OBJ \<and> kind cr = INTEGER_OBJ)"
    and "op = OpAdd T \<or> op = OpSub T \<or> op = OpMul T \<or> op = OpDiv T"
    and "ip < length (instructions vm)" and "instructions vm ! ip = op"
  shows "executeBinaryOperation T op vm =
           Inr (Some (UnsupportedBinary (kind cl) (kind cr)), vm\<lparr>sp := sp vm - 2\<rparr>) \<and>
         Run_from T ip vm = Inr (None, vm\<lparr>sp := sp vm - 2\<rparr>)"
proof -
  have e: "executeBinaryOperation T op vm =
      Inr (Some (UnsupportedBinary (kind cl) (kind cr)), vm\<lparr>sp := sp vm - 2\<rparr>)"
    using assms(2-6) by (auto simp: executeBinaryOperation_def pop_twice Type_load)
  from Run_from_binary_error [OF assms(1,8,9,7) e] e show ?thesis
    by (rule conjI [rotated])
qed

theorem binary_type_error_not_returned_by_Run_witness:
  "executeBinaryOperation sample_ops 3
     (with_stack [Ptr 0, True_obj] (New [Integer 5] \<lparr>Instructions = [3], Constants = []\<rparr>)) =
     Inr (Some (UnsupportedBinary INTEGER_OBJ BOOLEAN_OBJ),
          (with_stack [Ptr 0, True_obj] (New [Integer 5] \<lparr>Instructions = [3], Constants = []\<rparr>))
            \<lparr>sp := 0\<rparr>) \<and>
   Run sample_ops
     (with_stack [Ptr 0, True_obj] (New [Integer 5] \<lparr>Instructions = [3], Constants = []\<rparr>)) =
     Inr (None,
          (with_stack [Ptr 0, True_obj] (New [Integer 5] \<lparr>Instructions = [3], Constants = []\<rparr>))
            \<lparr>sp := 0\<rparr>)"
  using binary_type_error_not_returned_by_Run [of sample_ops
      "with_stack [Ptr 0, True_obj] (New [Integer 5] \<lparr>Instructions = [3], Constants = []\<rparr>)"
      "Integer 5" "Boolean True" 3 0]
    distinct_sample_ops
  by (simp add: with_stack_def New_def load_def sample_ops_def stack_ok_def StackSize_def Run_def
      del: Run_from.simps)

text \<open>
  C1. The program \<open>OpTrue, OpTrue, OpAdd, OpTrue\<close> on a new machine: the add fails with
  the error "unsupported types for binary operation" on two Booleans, no further
  instruction runs (the stack pointer stays at 0), and \<open>Run\<close> returns \<open>nil\<close> instead of
  the error. The same program with \<open>OpGreaterThan\<close> in place of \<open>OpAdd\<close> shows what every
  other opcode class does: \<open>Run\<close> returns the error of the operator.
\<close>

theorem Run_returns_nil_on_binary_error:
  "executeBinaryOperation sample_ops 1
     ((New [] \<lparr>Instructions = [6, 6, 1, 6], Constants = []\<rparr>)
        \<lparr>stack := (replicate 2048 Nil)[0 := True_obj, 1 := True_obj], sp := 2\<rparr>) =
     Inr (Some (UnsupportedBinary BOOLEAN_OBJ BOOLEAN_OBJ),
          (New [] \<lparr>Instructions = [6, 6, 1, 6], Constants = []\<rparr>)
            \<lparr>stack := (replicate 2048 Nil)[0 := True_obj, 1 := True_obj], sp := 0\<rparr>) \<and>
   Run sample_ops (New [] \<lparr>Instructions = [6, 6, 1, 6], Constants = []\<rparr>) =
     Inr (None,
          (New [] \<lparr>Instructions = [6, 6, 1, 6], Constants = []\<rparr>)
            \<lparr>stack := (replicate 2048 Nil)[0 := True_obj, 1 := True_obj], sp := 0\<rparr>) \<and>
   Run sample_ops (New [] \<lparr>Instructions = [6, 6, 10, 6], Constants = []\<rparr>) =
     Inr (Some (UnknownOperatorOn 10 BOOLEAN_OBJ BOOLEAN_OBJ),
          (New [] \<lparr>Instructions = [6, 6, 10, 6], Constants = []\<rparr>)
            \<lparr>stack := (replicate 2048 Nil)[0 := True_obj, 1 := True_obj], sp := 0\<rparr>)"
  by (simp add: Run_def New_def StackSize_def dispatch_def sample_ops_def push_def pop_def
      returnOnError_def returnNilOnError_def executeBinaryOperation_def executeComparison_def
      compareByIdentity_def Type_def load_def)

subsection \<open>Comparison\<close>

lemma executeComparison_integers:
  assumes "stack_ok vm" and "2 \<le> sp vm"
    and "load (heap vm) (stack vm ! nat (sp vm - 2)) = Some (Integer a)"
    and "load (heap vm) (stack vm ! nat (sp vm - 1)) = Some (Integer b)"
  shows "executeComparison T op vm =
           (if op = OpEqual T then push (nativeBoolToBoolean (b = a)) (vm\<lparr>sp := sp vm - 2\<rparr>)
            else if op = OpNotEqual T
            then push (nativeBoolToBoolean (b \<noteq> a)) (vm\<lparr>sp := sp vm - 2\<rparr>)
            else if op = OpGreaterThan T
            then push (nativeBoolToBoolean (sint a > sint b)) (vm\<lparr>sp := sp vm - 2\<rparr>)
            else Inr (Some (UnknownOperator op), vm\<lparr>sp := sp vm - 2\<rparr>))"
  using assms
  by (simp add: executeComparison_def pop_twice Type_load
      executeIntegerComparison_def IntegerValue_load)

lemma executeComparison_other:
  assumes "stack_ok vm" and "2 \<le> sp vm"
    and "load (heap vm) (stack vm ! nat (sp vm - 2)) = Some cl"
    and "load (heap vm) (stack vm ! nat (sp vm - 1)) = Some cr"
    and "\<not> (kind cl = INTEGER_OBJ \<and> kind cr = INTEGER_OBJ)"
  shows "executeComparison T op vm =
           (if op = OpEqual T
            then push (nativeBoolToBoolean (stack vm ! nat (sp vm - 1) = stack vm ! nat (sp vm - 2)))
                   (vm\<lparr>sp := sp vm - 2\<rparr>)
            else if op = OpNotEqual T
            then push (nativeBoolToBoolean (stack vm ! nat (sp vm - 1) \<noteq> stack vm ! nat (sp vm - 2)))
                   (vm\<lparr>sp := sp vm - 2\<rparr>)
            else Inr (Some (UnknownOperatorOn op (kind cl) (kind cr)), vm\<lparr>sp := sp vm - 2\<rparr>))"
  using assms
  by (auto simp: executeComparison_def pop_twice Type_load compareByIdentity_def)

text \<open>
  C3. On a machine whose two topmost stack values are objects, \<open>left\<close> below \<open>right\<close>:
  \<^item> when both are Integers, of values \<open>a\<close> and \<open>b\<close>, equal, not-equal and greater-than
    replace them by the Boolean of \<open>a = b\<close>, of \<open>a \<noteq> b\<close> and of \<open>a > b\<close> (as signed
    numbers);
  \<^item> when they are not both Integers, equal and not-equal compare the two pointers, and
    greater-than is the error "unknown operator" that carries the opcode and the kinds
    of both operands, which \<open>Run\<close> returns to its caller;
  \<^item> so a Boolean against an Integer is \<open>False\<close> under equal and \<open>True\<close> under not-equal;
  \<^item> whatever the opcode and the operands, a comparison that succeeds leaves one of the
    two singletons \<open>True\<close> and \<open>False\<close> on top of the stack, never another object.
\<close>

theorem comparison_dispatch:
  assumes "distinct_ops T" and "stack_ok vm" and "2 \<le> sp vm"
    and "stack vm ! nat (sp vm - 2) = left" and "stack vm ! nat (sp vm - 1) = right"
    and "load (heap vm) left = Some cl" and "load (heap vm) right = Some cr"
  shows
    "(cl = Integer a \<and> cr = Integer b \<longrightarrow>
        executeComparison T (OpEqual T) vm =
          Inr (None, vm\<lparr>stack := (stack vm)[nat (sp vm - 2) :=
                                     (if a = b then True_obj else False_obj)],
                          sp := sp vm - 1\<rparr>) \<and>
        executeComparison T (OpNotEqual T) vm =
          Inr (None, vm\<lparr>stack := (stack vm)[nat (sp vm - 2) :=
                                     (if a \<noteq> b then True_obj else False_obj)],
                          sp := sp vm - 1\<rparr>) \<and>
        executeComparison T (OpGreaterThan T) vm =
          Inr (None, vm\<lparr>stack := (stack vm)[nat (sp vm - 2) :=
                                     (if sint a > sint b then True_obj else False_obj)],
                          sp := sp vm - 1\<rparr>)) \<and>
     (\<not> (kind cl = INTEGER_OBJ \<and> kind cr = INTEGER_OBJ) \<longrightarrow>
        executeComparison T (OpEqual T) vm =
          Inr (None, vm\<lparr>stack := (stack vm)[nat (sp vm - 2) :=
                                     (if right = left then True_obj else False_obj)],
                          sp := sp vm - 1\<rparr>) \<and>
        executeComparison T (OpNotEqual T) vm =
          Inr (None, vm\<lparr>stack := (stack vm)[nat (sp vm - 2) :=
                                     (if right \<noteq> left then True_obj else False_obj)],
                          sp := sp vm - 1\<rparr>) \<and>
        executeComparison T (OpGreaterThan T) vm =
          Inr (Some (UnknownOperatorOn (OpGreaterThan T) (kind cl) (kind cr)),
               vm\<lparr>sp := sp vm - 2\<rparr>) \<and>
        (ip < length (instructions vm) \<and> instructions vm ! ip = OpGreaterThan T \<longrightarrow>
           Run_from T ip vm =
             Inr (Some (UnknownOperatorOn (OpGreaterThan T) (kind cl) (kind cr)),
                  vm\<lparr>sp := sp vm - 2\<rparr>))) \<and>
     (kind cl = BOOLEAN_OBJ \<and> kind cr = INTEGER_OBJ \<or>
      kind cl = INTEGER_OBJ \<and> kind cr = BOOLEAN_OBJ \<longrightarrow>
        executeComparison T (OpEqual T) vm =
          Inr (None, vm\<lparr>stack := (stack vm)[nat (sp vm - 2) := False_obj], sp := sp vm - 1\<rparr>) \<and>
        executeComparison T (OpNotEqual T) vm =
          Inr (None, vm\<lparr>stack := (stack vm)[nat (sp vm - 2) := True_obj], sp := sp vm - 1\<rparr>)) \<and>
     (\<forall>op vm'. executeComparison T op vm = Inr (None, vm') \<longrightarrow>
        stack vm' ! nat (sp vm' - 1) = True_obj \<or> stack vm' ! nat (sp vm' - 1) = False_obj)"
proof -
  have d: "OpNotEqual T \<noteq> OpEqual T" "OpGreaterThan T \<noteq> OpEqual T"
    "OpGreaterThan T \<noteq> OpNotEqual T"
    using assms(1) by (auto simp: distinct_ops_def known_ops_def)
  note p = push_after_two_pops [OF assms(2,3)]
  have ld: "load (heap vm) (stack vm ! nat (sp vm - 2)) = Some cl"
    "load (heap vm) (stack vm ! nat (sp vm - 1)) = Some cr"
    using assms(4-7) by simp_all
  have ints: "cl = Integer a \<and> cr = Integer b \<longrightarrow>
        executeComparison T (OpEqual T) vm =
          Inr (None, vm\<lparr>stack := (stack vm)[nat (sp vm - 2) :=
                                     (if a = b then True_obj else False_obj)],
                          sp := sp vm - 1\<rparr>) \<and>
        executeComparison T (OpNotEqual T) vm =
          Inr (None, vm\<lparr>stack := (stack vm)[nat (sp vm - 2) :=
                                     (if a \<noteq> b then True_obj else False_obj)],
                          sp := sp vm - 1\<rparr>) \<and>
        executeComparison T (OpGreaterThan T) vm =
          Inr (None, vm\<lparr>stack := (stack vm)[nat (sp vm - 2) :=
                                     (if sint a > sint b then True_obj else False_obj)],
                          sp := sp vm - 1\<rparr>)"
    using executeComparison_integers [OF assms(2,3), of a b T] ld
    by (auto simp: p d nativeBoolToBoolean_def)
  have gt: "executeComparison T (OpGreaterThan T) vm =
          Inr (Some (UnknownOperatorOn (OpGreaterThan T) (kind cl) (kind cr)),
               vm\<lparr>sp := sp vm - 2\<rparr>)"
    if "\<not> (kind cl = INTEGER_OBJ \<and> kind cr = INTEGER_OBJ)"
    using executeComparison_other [OF assms(2,3) ld that] by (simp add: d)
  have run: "Run_from T ip vm =
             Inr (Some (UnknownOperatorOn (OpGreaterThan T) (kind cl) (kind cr)),
                  vm\<lparr>sp := sp vm - 2\<rparr>)"
    if "\<not> (kind cl = INTEGER_OBJ \<and> kind cr = INTEGER_OBJ)"
      and "ip < length (instructions vm) \<and> instructions vm ! ip = OpGreaterThan T"
    using gt [OF that(1)] that(2) assms(1)
    by (simp add: dispatch_OpGreaterThan returnOnError_def)
  have other: "\<not> (kind cl = INTEGER_OBJ \<and> kind cr = INTEGER_OBJ) \<longrightarrow>
        executeComparison T (OpEqual T) vm =
          Inr (None, vm\<lparr>stack := (stack vm)[nat (sp vm - 2) :=
                                     (if right = left then True_obj else False_obj)],
                          sp := sp vm - 1\<rparr>) \<and>
        executeComparison T (OpNotEqual T) vm =
          Inr (None, vm\<lparr>stack := (stack vm)[nat (sp vm - 2) :=
                                     (if right \<noteq> left then True_obj else False_obj)],
                          sp := sp vm - 1\<rparr>)"
    using executeComparison_other [OF assms(2,3) ld] assms(4,5)
    by (auto simp: p d nativeBoolToBoolean_def)
  have differ: "kind cl \<noteq> kind cr \<Longrightarrow> right \<noteq> left"
    using assms(6,7) by auto
  have mixed: "kind cl = BOOLEAN_OBJ \<and> kind cr = INTEGER_OBJ \<or>
      kind cl = INTEGER_OBJ \<and> kind cr = BOOLEAN_OBJ \<longrightarrow>
        executeComparison T (OpEqual T) vm =
          Inr (None, vm\<lparr>stack := (stack vm)[nat (sp vm - 2) := False_obj], sp := sp vm - 1\<rparr>) \<and>
        executeComparison T (OpNotEqual T) vm =
          Inr (None, vm\<lparr>stack := (stack vm)[nat (sp vm - 2) := True_obj], sp := sp vm - 1\<rparr>)"
    using other differ by auto
  have len: "nat (sp vm - 2) < length (stack vm)"
    using assms(2,3) unfolding stack_ok_def by arith
  have single: "stack vm' ! nat (sp vm' - 1) = True_obj \<or> stack vm' ! nat (sp vm' - 1) = False_obj"
    if r: "executeComparison T op vm = Inr (None, vm')" for op vm'
  proof (cases "kind cl = INTEGER_OBJ \<and> kind cr = INTEGER_OBJ")
    case True
    then obtain x y where "cl = Integer x" "cr = Integer y"
      by (cases cl; cases cr) auto
    with r executeComparison_integers [OF assms(2,3), of x y T op] ld len show ?thesis
      by (auto simp: p nativeBoolToBoolean_def split: if_splits)
  next
    case False
    with r executeComparison_other [OF assms(2,3) ld, of T op] len show ?thesis
      by (auto simp: p nativeBoolToBoolean_def split: if_splits)
  qed
  from ints other gt run mixed single show ?thesis by blast
qed

theorem comparison_dispatch_witness:
  "executeComparison sample_ops 10
     (with_stack [Ptr 0, Ptr 1] (New [Integer 1, Integer 2] no_code)) =
     Inr (None, (with_stack [False_obj, Ptr 1] (New [Integer 1, Integer 2] no_code))\<lparr>sp := 1\<rparr>) \<and>
   executeComparison sample_ops 8
     (with_stack [True_obj, Ptr 0] (New [Integer 1] \<lparr>Instructions = [10], Constants = []\<rparr>)) =
     Inr (None, (with_stack [False_obj, Ptr 0]
                   (New [Integer 1] \<lparr>Instructions = [10], Constants = []\<rparr>))\<lparr>sp := 1\<rparr>) \<and>
   Run sample_ops
     (with_stack [True_obj, Ptr 0] (New [Integer 1] \<lparr>Instructions = [10], Constants = []\<rparr>)) =
     Inr (Some (UnknownOperatorOn 10 BOOLEAN_OBJ INTEGER_OBJ),
          (with_stack [True_obj, Ptr 0]
             (New [Integer 1] \<lparr>Instructions = [10], Constants = []\<rparr>))\<lparr>sp := 0\<rparr>)"
proof -
  have ok: "stack_ok (with_stack [x, y] (New h bc))"
    and two: "2 \<le> sp (with_stack [x, y] (New h bc))" for x y h bc
    by (simp_all add: stack_ok_def with_stack_def New_def StackSize_def)
  have "executeComparison sample_ops 10
     (with_stack [Ptr 0, Ptr 1] (New [Integer 1, Integer 2] no_code)) =
     Inr (None, (with_stack [False_obj, Ptr 1] (New [Integer 1, Integer 2] no_code))\<lparr>sp := 1\<rparr>)"
    using comparison_dispatch [OF distinct_sample_ops ok two, of "Ptr 0" "Ptr 1"
        "[Integer 1, Integer 2]" no_code "Ptr 0" "Ptr 1" "Integer 1" "Integer 2" 1 2]
    by (simp add: with_stack_def New_def load_def sample_ops_def)
  moreover
  have "executeComparison sample_ops 8
     (with_stack [True_obj, Ptr 0] (New [Integer 1] \<lparr>Instructions = [10], Constants = []\<rparr>)) =
     Inr (None, (with_stack [False_obj, Ptr 0]
                   (New [Integer 1] \<lparr>Instructions = [10], Constants = []\<rparr>))\<lparr>sp := 1\<rparr>) \<and>
   Run sample_ops
     (with_stack [True_obj, Ptr 0] (New [Integer 1] \<lparr>Instructions = [10], Constants = []\<rparr>)) =
     Inr (Some (UnknownOperatorOn 10 BOOLEAN_OBJ INTEGER_OBJ),
          (with_stack [True_obj, Ptr 0]
             (New [Integer 1] \<lparr>Instructions = [10], Constants = []\<rparr>))\<lparr>sp := 0\<rparr>)"
    using comparison_dispatch [OF distinct_sample_ops ok two, of True_obj "Ptr 0"
        "[Integer 1]" "\<lparr>Instructions = [10], Constants = []\<rparr>" True_obj "Ptr 0"
        "Boolean True" "Integer 1" _ _ 0]
    by (simp add: with_stack_def New_def load_def sample_ops_def Run_def del: Run_from.simps)
  ultimately show ?thesis by simp
qed

subsection \<open>The last popped element\<close>

lemma fill_next_slot:
  "(replicate k a @ replicate (Suc m) b)[k := a] = replicate (Suc k) a @ replicate m b"
  by (simp add: list_update_append replicate_app_Cons_same)

text \<open>
  A program of \<open>StackSize\<close> instructions \<open>OpTrue\<close> on a new machine fills the stack and
  ends without error. The statement is about the loop from any instruction pointer \<open>k\<close>,
  with \<open>k\<close> values already pushed.
\<close>

lemma Run_from_pushes_only:
  assumes "distinct_ops T" and "int n = StackSize"
  shows "k \<le> n \<Longrightarrow>
     Run_from T k \<lparr>contants = cs, instructions = replicate n (OpTrue T),
                   stack = replicate k True_obj @ replicate (n - k) Nil, sp = int k, heap = h\<rparr> =
     Inr (None, \<lparr>contants = cs, instructions = replicate n (OpTrue T),
                 stack = replicate n True_obj, sp = int n, heap = h\<rparr>)"
proof (induction "n - k" arbitrary: k)
  case 0
  then show ?case by simp
next
  case (Suc m)
  let ?vm = "\<lparr>contants = cs, instructions = replicate n (OpTrue T),
              stack = replicate k True_obj @ replicate (n - k) Nil, sp = int k, heap = h\<rparr>"
  let ?vm' = "\<lparr>contants = cs, instructions = replicate n (OpTrue T),
               stack = replicate (Suc k) True_obj @ replicate (n - Suc k) Nil,
               sp = int (Suc k), heap = h\<rparr>"
  from Suc have k: "k < n" and m: "n - k = Suc m" "m = n - Suc k" by simp_all
  have "dispatch T k ?vm = returnOnError k (push True_obj ?vm)"
    using assms(1) k by (intro dispatch_OpTrue) simp_all
  also have "push True_obj ?vm = Inr (None, ?vm')"
    using k assms(2) m fill_next_slot [of k True_obj m Nil]
    by (simp add: push_def)
  finally have "dispatch T k ?vm = Inr (Continue k ?vm')"
    by (simp add: returnOnError_def)
  then have "Run_from T k ?vm = Run_from T (Suc k) ?vm'"
    using k by (subst Run_from.simps) simp
  also have "\<dots> = Inr (None, \<lparr>contants = cs, instructions = replicate n (OpTrue T),
                 stack = replicate n True_obj, sp = int n, heap = h\<rparr>)"
    using Suc.hyps(1) [of "Suc k"] m k by simp
  finally show ?case .
qed

text \<open>
  C5. \<open>LastPoppedStackElement\<close> reads the stack array at index \<open>sp\<close>. In a machine that
  satisfies the stack invariant:
  \<^item> with \<open>sp\<close> below \<open>StackSize\<close> it returns that slot and does not panic; on a new
    machine, where nothing was pushed or popped, the slot is \<open>nil\<close>;
  \<^item> with \<open>sp\<close> equal to \<open>StackSize\<close> (a full stack) the index is out of range and the
    call panics;
  \<^item> when the last instruction of the stream is a pop and the value on top of the stack
    is \<open>V\<close>, \<open>Run\<close> ends without error and \<open>LastPoppedStackElement\<close> then returns \<open>V\<close>.
\<close>

theorem LastPoppedStackElement_reads_slot_sp:
  assumes "stack_ok vm"
  shows "(sp vm < StackSize \<longrightarrow> LastPoppedStackElement vm = Inr (stack vm ! nat (sp vm))) \<and>
         (sp vm = StackSize \<longrightarrow> LastPoppedStackElement vm = Inl IndexOutOfRange) \<and>
         LastPoppedStackElement (New h bytecode) = Inr Nil \<and>
         (distinct_ops T \<and> 1 \<le> sp vm \<and> ip + 1 = length (instructions vm) \<and>
          instructions vm ! ip = OpPop T \<longrightarrow>
            Run_from T ip vm = Inr (None, vm\<lparr>sp := sp vm - 1\<rparr>) \<and>
            LastPoppedStackElement (vm\<lparr>sp := sp vm - 1\<rparr>) = Inr (stack vm ! nat (sp vm - 1)))"
proof (intro conjI impI)
  show "LastPoppedStackElement vm = Inr (stack vm ! nat (sp vm))" if "sp vm < StackSize"
    using assms that by (simp add: LastPoppedStackElement_def stack_ok_def)
  show "LastPoppedStackElement vm = Inl IndexOutOfRange" if "sp vm = StackSize"
    using assms that by (simp add: LastPoppedStackElement_def stack_ok_def)
  show "LastPoppedStackElement (New h bytecode) = Inr Nil"
    by (simp add: LastPoppedStackElement_def New_def StackSize_def)
next
  assume a: "distinct_ops T \<and> 1 \<le> sp vm \<and> ip + 1 = length (instructions vm) \<and>
    instructions vm ! ip = OpPop T"
  then have "dispatch T ip vm = Inr (Continue ip (vm\<lparr>sp := sp vm - 1\<rparr>))"
    using assms by (simp add: dispatch_OpPop pop_ok)
  moreover have "ip < length (instructions vm)"
    using a by arith
  ultimately have "Run_from T ip vm = Run_from T (ip + 1) (vm\<lparr>sp := sp vm - 1\<rparr>)"
    by simp
  also have "\<dots> = Inr (None, vm\<lparr>sp := sp vm - 1\<rparr>)"
    using a by simp
  finally show "Run_from T ip vm = Inr (None, vm\<lparr>sp := sp vm - 1\<rparr>)" .
  show "LastPoppedStackElement (vm\<lparr>sp := sp vm - 1\<rparr>) = Inr (stack vm ! nat (sp vm - 1))"
    using a assms by (simp add: LastPoppedStackElement_def stack_ok_def)
qed

theorem LastPoppedStackElement_reads_slot_sp_witness:
  "Run sample_ops (with_stack [Ptr 0] (New [Integer 3] \<lparr>Instructions = [2], Constants = []\<rparr>)) =
     Inr (None, (with_stack [Ptr 0] (New [Integer 3] \<lparr>Instructions = [2], Constants = []\<rparr>))
                  \<lparr>sp := 0\<rparr>) \<and>
   LastPoppedStackElement
     ((with_stack [Ptr 0] (New [Integer 3] \<lparr>Instructions = [2], Constants = []\<rparr>))\<lparr>sp := 0\<rparr>) =
     Inr (Ptr 0) \<and>
   LastPoppedStackElement full_vm = Inl IndexOutOfRange"
proof -
  have ok: "stack_ok (with_stack [Ptr 0] (New [Integer 3] \<lparr>Instructions = [2], Constants = []\<rparr>))"
    by (simp add: stack_ok_def with_stack_def New_def StackSize_def)
  have full: "stack_ok full_vm" "sp full_vm = StackSize"
    by (simp_all add: stack_ok_def full_vm_def with_stack_def New_def StackSize_def)
  have "Run sample_ops (with_stack [Ptr 0] (New [Integer 3] \<lparr>Instructions = [2], Constants = []\<rparr>)) =
     Inr (None, (with_stack [Ptr 0] (New [Integer 3] \<lparr>Instructions = [2], Constants = []\<rparr>))
                  \<lparr>sp := 0\<rparr>) \<and>
   LastPoppedStackElement
     ((with_stack [Ptr 0] (New [Integer 3] \<lparr>Instructions = [2], Constants = []\<rparr>))\<lparr>sp := 0\<rparr>) =
     Inr (Ptr 0)"
    using LastPoppedStackElement_reads_slot_sp [OF ok, of _ _ sample_ops 0] distinct_sample_ops
    by (simp add: with_stack_def New_def sample_ops_def Run_def del: Run_from.simps)
  moreover have "LastPoppedStackElement full_vm = Inl IndexOutOfRange"
    using LastPoppedStackElement_reads_slot_sp [OF full(1)] full(2) by simp
  ultimately show ?thesis by simp
qed

text \<open>
  C5 as the spec words it fails for a run that pushes values up to the capacity of the stack and never
  pops: after 2048 instructions \<open>OpTrue\<close>, \<open>Run\<close> has returned without error, \<open>sp\<close> is
  2048, and \<open>LastPoppedStackElement\<close> panics.
\<close>

theorem LastPoppedStackElement_full_stack_counterexample:
  "Run sample_ops (New [] \<lparr>Instructions = replicate 2048 6, Constants = []\<rparr>) =
     Inr (None, \<lparr>contants = [], instructions = replicate 2048 6,
                 stack = replicate 2048 True_obj, sp = 2048, heap = []\<rparr>) \<and>
   LastPoppedStackElement \<lparr>contants = [], instructions = replicate 2048 6,
                 stack = replicate 2048 True_obj, sp = 2048, heap = []\<rparr> = Inl IndexOutOfRange"
proof -
  have "Run_from sample_ops 0
          \<lparr>contants = [], instructions = replicate 2048 (OpTrue sample_ops),
           stack = replicate 0 True_obj @ replicate (2048 - 0) Nil, sp = int 0, heap = []\<rparr> =
        Inr (None, \<lparr>contants = [], instructions = replicate 2048 (OpTrue sample_ops),
                    stack = replicate 2048 True_obj, sp = int 2048, heap = []\<rparr>)"
    by (rule Run_from_pushes_only [OF distinct_sample_ops]) (simp_all add: StackSize_def)
  then have "Run sample_ops (New [] \<lparr>Instructions = replicate 2048 6, Constants = []\<rparr>) =
     Inr (None, \<lparr>contants = [], instructions = replicate 2048 6,
                 stack = replicate 2048 True_obj, sp = 2048, heap = []\<rparr>)"
    by (simp add: Run_def New_def StackSize_def sample_ops_def del: Run_from.simps)
  moreover have "LastPoppedStackElement \<lparr>contants = [], instructions = replicate 2048 6,
                 stack = replicate 2048 True_obj, sp = 2048, heap = []\<rparr> = Inl IndexOutOfRange"
    by (simp add: LastPoppedStackElement_def)
  ultimately show ?thesis by (rule conjI)
qed

subsection \<open>Unknown opcodes and operators\<close>

text \<open>
  C6. The switch of \<open>Run\<close> has no default case: a byte at the instruction pointer that
  is none of the thirteen opcodes changes nothing, and the loop goes on with the next
  byte; no error is reported. The two operator switches do have one:
  \<open>executeBinaryIntegerOperation\<close> called with an operator that is not add, subtract,
  multiply or divide returns the error "unknown integer operator", and
  \<open>executeIntegerComparison\<close> called with an operator that is not equal, not-equal or
  greater-than returns the error "unknown operator", each with the operator and
  without touching the machine.
\<close>

theorem unknown_opcode_skipped_unknown_operator_reported:
  "(ip < length (instructions vm) \<and> instructions vm ! ip \<notin> set (known_ops T) \<longrightarrow>
      dispatch T ip vm = Inr (Continue ip vm) \<and>
      Run_from T ip vm = Run_from T (ip + 1) vm) \<and>
   (load (heap vm) left = Some (Integer a) \<and> load (heap vm) right = Some (Integer b) \<and>
    op \<noteq> OpAdd T \<and> op \<noteq> OpSub T \<and> op \<noteq> OpMul T \<and> op \<noteq> OpDiv T \<longrightarrow>
      executeBinaryIntegerOperation T op left right vm =
        Inr (Some (UnknownIntegerOperator op), vm)) \<and>
   (load (heap vm) left = Some (Integer a) \<and> load (heap vm) right = Some (Integer b) \<and>
    op \<noteq> OpEqual T \<and> op \<noteq> OpNotEqual T \<and> op \<noteq> OpGreaterThan T \<longrightarrow>
      executeIntegerComparison T op left right vm = Inr (Some (UnknownOperator op), vm))"
proof (intro conjI impI)
  assume a: "ip < length (instructions vm) \<and> instructions vm ! ip \<notin> set (known_ops T)"
  then show d: "dispatch T ip vm = Inr (Continue ip vm)"
    by (simp add: dispatch_unknown)
  from a d show "Run_from T ip vm = Run_from T (ip + 1) vm"
    by simp
next
  assume "load (heap vm) left = Some (Integer a) \<and> load (heap vm) right = Some (Integer b) \<and>
    op \<noteq> OpAdd T \<and> op \<noteq> OpSub T \<and> op \<noteq> OpMul T \<and> op \<noteq> OpDiv T"
  then show "executeBinaryIntegerOperation T op left right vm =
      Inr (Some (UnknownIntegerOperator op), vm)"
    by (simp add: executeBinaryIntegerOperation_def IntegerValue_load)
next
  assume "load (heap vm) left = Some (Integer a) \<and> load (heap vm) right = Some (Integer b) \<and>
    op \<noteq> OpEqual T \<and> op \<noteq> OpNotEqual T \<and> op \<noteq> OpGreaterThan T"
  then show "executeIntegerComparison T op left right vm = Inr (Some (UnknownOperator op), vm)"
    by (simp add: executeIntegerComparison_def IntegerValue_load)
qed

theorem unknown_opcode_skipped_unknown_operator_reported_witness:
  "Run_from sample_ops 0 (New [] \<lparr>Instructions = [255, 6], Constants = []\<rparr>) =
     Run_from sample_ops 1 (New [] \<lparr>Instructions = [255, 6], Constants = []\<rparr>) \<and>
   executeBinaryIntegerOperation sample_ops 9 (Ptr 0) (Ptr 1) (New [Integer 1, Integer 2] no_code) =
     Inr (Some (UnknownIntegerOperator 9), New [Integer 1, Integer 2] no_code) \<and>
   executeIntegerComparison sample_ops 1 (Ptr 0) (Ptr 1) (New [Integer 1, Integer 2] no_code) =
     Inr (Some (UnknownOperator 1), New [Integer 1, Integer 2] no_code)"
proof -
  have "Run_from sample_ops 0 (New [] \<lparr>Instructions = [255, 6], Constants = []\<rparr>) =
     Run_from sample_ops 1 (New [] \<lparr>Instructions = [255, 6], Constants = []\<rparr>)"
    using unknown_opcode_skipped_unknown_operator_reported
      [of 0 "New [] \<lparr>Instructions = [255, 6], Constants = []\<rparr>" sample_ops]
    by (simp add: New_def known_ops_def sample_ops_def del: Run_from.simps)
  moreover
  have "executeBinaryIntegerOperation sample_ops 9 (Ptr 0) (Ptr 1) (New [Integer 1, Integer 2] no_code) =
     Inr (Some (UnknownIntegerOperator 9), New [Integer 1, Integer 2] no_code)"
    using unknown_opcode_skipped_unknown_operator_reported
      [of _ "New [Integer 1, Integer 2] no_code" sample_ops "Ptr 0" 1 "Ptr 1" 2 9]
    by (simp add: New_def load_def sample_ops_def)
  moreover
  have "executeIntegerComparison sample_ops 1 (Ptr 0) (Ptr 1) (New [Integer 1, Integer 2] no_code) =
     Inr (Some (UnknownOperator 1), New [Integer 1, Integer 2] no_code)"
    using unknown_opcode_skipped_unknown_operator_reported
      [of _ "New [Integer 1, Integer 2] no_code" sample_ops "Ptr 0" 1 "Ptr 1" 2 1]
    by (simp add: New_def load_def sample_ops_def)
  ultimately show ?thesis by simp
qed

text \<open>
  C6 as the spec words it fails on the stream \<open>255, OpTrue\<close>: the byte 255 is no opcode, \<open>Run\<close> skips
  it, executes the \<open>OpTrue\<close> after it and returns without error.
\<close>

theorem unknown_opcode_counterexample:
  "Run sample_ops (New [] \<lparr>Instructions = [255, 6], Constants = []\<rparr>) =
     Inr (None, (New [] \<lparr>Instructions = [255, 6], Constants = []\<rparr>)
                  \<lparr>stack := (replicate 2048 Nil)[0 := True_obj], sp := 1\<rparr>)"
  by (simp add: Run_def New_def StackSize_def dispatch_def sample_ops_def push_def
      returnOnError_def)

end
